theory Spec2Isabelle
  imports Main "HOL-Library.Sublist"
begin

section \<open>Data model (app/models.py)\<close>

text \<open>
  A field of type \<open>Any\<close> holds a Python value that came in from a JSON request body:
  \<open>None\<close>, a boolean, an integer, a float, a string, a list or a dictionary with string
  keys (its items in insertion order). A float is a finite double, written here by a
  mantissa \<open>m\<close> and an exponent \<open>e\<close> for the value \<open>m * 2 ^ e\<close>, or one of the three
  values that are not finite; \<open>json.loads\<close> reads the number \<open>1e999\<close> as infinity, so
  these reach the endpoints too.
\<close>

datatype py_float = Finite int int | Infinity | Neg_infinity | NaN

datatype py_value =
    PyNone
  | PyBool bool
  | PyInt int
  | PyFloat py_float
  | PyStr string
  | PyList "py_value list"
  | PyDict "(string \<times> py_value) list"

type_synonym py_dict = "(string \<times> py_value) list"

text \<open>
  A JSON document, as written to a file and read from it. JSON has no token for a float
  that is not finite.
\<close>

datatype json =
    JNull
  | JBool bool
  | JInt int
  | JFloat int int
  | JStr string
  | JArr "json list"
  | JObj "(string \<times> json) list"

record text_prompt_request =
  prompt :: string

record architecture_component =
  component_id :: string
  component_name :: string
  component_type :: string
  technology :: "string option"
  component_description :: "string option"
  component_properties :: "py_dict option"

record architecture_connection =
  connection_id :: string
  source_component_id :: string
  target_component_id :: string
  protocol :: "string option"
  connection_description :: "string option"
  connection_properties :: "py_dict option"

record architecture_diagram =
  diagram_id :: string
  name :: string
  description :: "string option"
  components :: "architecture_component list"
  connections :: "architecture_connection list"
  metadata :: "py_dict option"

record api_response =
  message :: string
  data :: "py_value option"
  success :: bool


section \<open>Strings\<close>

text \<open>
  A Python string is modelled as a list of characters, each character a code point
  below 256. On these, \<open>str.lower\<close> maps \<open>A..Z\<close> and the Latin-1 capitals
  (192..222 except the multiplication sign 215) to the code point 32 above, and leaves every
  other code point alone.
\<close>

definition lower_char :: "char \<Rightarrow> char" where
  "lower_char c =
     (let n = (of_char c :: nat)
      in if (65 \<le> n \<and> n \<le> 90) \<or> (192 \<le> n \<and> n \<le> 222 \<and> n \<noteq> 215)
         then char_of (n + 32) else c)"

definition lower :: "string \<Rightarrow> string" where
  "lower s = map lower_char s"

text \<open>\<open>s.startswith(sub)\<close> and the substring test \<open>sub in s\<close>.\<close>

fun startswith :: "string \<Rightarrow> string \<Rightarrow> bool" where
  "startswith s [] = True"
| "startswith [] (c # cs) = False"
| "startswith (x # xs) (c # cs) = (x = c \<and> startswith xs cs)"

fun contains :: "string \<Rightarrow> string \<Rightarrow> bool" where
  "contains sub [] = (sub = [])"
| "contains sub (x # xs) = (startswith (x # xs) sub \<or> contains sub xs)"


section \<open>The synthesis engine (app/main.py, generate_architecture_endpoint)\<close>

text \<open>
  \<open>uuid.uuid4()\<close> reads the system's random source. The model takes the results of the
  successive calls as a parameter \<open>uuid4 :: nat \<Rightarrow> string\<close> (the value of call number
  \<open>k\<close> of the request) and counts the calls made so far in \<open>uuid_calls\<close>.

  The local variables of the endpoint that the rule blocks update:
\<close>

record builder =
  b_components :: "architecture_component list"
  b_connections :: "architecture_connection list"
  client_components :: "string list"
  backend_services :: "string list"
  api_gateway_id :: "string option"
  uuid_calls :: nat

definition mk_component ::
  "string \<Rightarrow> string \<Rightarrow> string \<Rightarrow> string \<Rightarrow> string \<Rightarrow> architecture_component" where
  "mk_component i n t tech d =
     \<lparr>component_id = i, component_name = n, component_type = t, technology = Some tech,
      component_description = Some d, component_properties = None\<rparr>"

definition mk_connection ::
  "string \<Rightarrow> string \<Rightarrow> string \<Rightarrow> string \<Rightarrow> string \<Rightarrow> architecture_connection" where
  "mk_connection i src tgt proto d =
     \<lparr>connection_id = i, source_component_id = src, target_component_id = tgt,
      protocol = Some proto, connection_description = Some d, connection_properties = None\<rparr>"

text \<open>Lines 40-53: the three client tests, each on its own.\<close>

definition client_tier :: "(nat \<Rightarrow> string) \<Rightarrow> string \<Rightarrow> builder \<Rightarrow> builder" where
  "client_tier uuid4 prompt_lower b0 =
     (let b1 =
            (if contains ''android'' prompt_lower
             then (let comp_id = ''comp_'' @ uuid4 (uuid_calls b0)
                   in b0\<lparr>b_components :=
                           b_components b0 @
                           [mk_component comp_id ''Android Client'' ''MobileClient''
                              ''Android/Kotlin/Java'' ''Native Android application interface.''],
                         client_components := client_components b0 @ [comp_id],
                         uuid_calls := uuid_calls b0 + 1\<rparr>)
             else b0);
          b2 =
            (if contains ''ios'' prompt_lower
             then (let comp_id = ''comp_'' @ uuid4 (uuid_calls b1)
                   in b1\<lparr>b_components :=
                           b_components b1 @
                           [mk_component comp_id ''iOS Client'' ''MobileClient''
                              ''iOS/Swift'' ''Native iOS application interface.''],
                         client_components := client_components b1 @ [comp_id],
                         uuid_calls := uuid_calls b1 + 1\<rparr>)
             else b1)
      in if contains ''web'' prompt_lower \<or> contains ''browser'' prompt_lower
         then (let comp_id = ''comp_'' @ uuid4 (uuid_calls b2)
               in b2\<lparr>b_components :=
                       b_components b2 @
                       [mk_component comp_id ''Web Client'' ''WebClient''
                          ''React/Angular/Vue'' ''Browser-based web application interface.''],
                     client_components := client_components b2 @ [comp_id],
                     uuid_calls := uuid_calls b2 + 1\<rparr>)
         else b2)"

text \<open>Lines 55-71: the gateway and the two services, each service with its connection.\<close>

definition backend_tier :: "(nat \<Rightarrow> string) \<Rightarrow> string \<Rightarrow> builder \<Rightarrow> builder" where
  "backend_tier uuid4 prompt_lower b =
     (if contains ''api'' prompt_lower \<or> contains ''backend'' prompt_lower
      then
        (let k = uuid_calls b;
             gateway = ''comp_'' @ uuid4 k;
             user_service_id = ''comp_'' @ uuid4 (k + 1);
             product_service_id = ''comp_'' @ uuid4 (k + 3)
         in b\<lparr>api_gateway_id := Some gateway,
               b_components :=
                 b_components b @
                 [mk_component gateway ''API Gateway'' ''APIGateway''
                    ''e.g., Kong/NGINX/AWS API Gateway''
                    ''Single entry point for all client requests.'',
                  mk_component user_service_id ''User Service'' ''Microservice''
                    ''e.g., Python/FastAPI''
                    ''Manages user authentication, profiles, and settings.'',
                  mk_component product_service_id ''Product Service'' ''Microservice''
                    ''e.g., Node.js/Express''
                    ''Manages product information or another specific domain.''],
               backend_services := backend_services b @ [user_service_id, product_service_id],
               b_connections :=
                 b_connections b @
                 [mk_connection (''conn_'' @ uuid4 (k + 2)) gateway user_service_id
                    ''HTTPS/REST'' ''Routes user-related requests to User Service.'',
                  mk_connection (''conn_'' @ uuid4 (k + 4)) gateway product_service_id
                    ''HTTPS/REST'' ''Routes product-related requests to Product Service.''],
               uuid_calls := k + 5\<rparr>)
      else b)"

text \<open>
  Lines 73-76: \<open>for client_id in client_components\<close>, one connection with a fresh id
  per client, in the order of the list. The loop runs only when a gateway exists and the
  list of clients is not empty.
\<close>

fun connect_clients ::
  "(nat \<Rightarrow> string) \<Rightarrow> string \<Rightarrow> string list \<Rightarrow> builder \<Rightarrow> builder" where
  "connect_clients uuid4 gateway [] b = b"
| "connect_clients uuid4 gateway (client_id # rest) b =
     connect_clients uuid4 gateway rest
       (b\<lparr>b_connections :=
            b_connections b @
            [mk_connection (''conn_'' @ uuid4 (uuid_calls b)) client_id gateway ''HTTPS''
               ''Client communication to backend via API Gateway.''],
          uuid_calls := uuid_calls b + 1\<rparr>)"

definition client_wiring :: "(nat \<Rightarrow> string) \<Rightarrow> builder \<Rightarrow> builder" where
  "client_wiring uuid4 b =
     (case api_gateway_id b of
        None \<Rightarrow> b
      | Some gateway \<Rightarrow>
          if gateway \<noteq> [] \<and> client_components b \<noteq> []
          then connect_clients uuid4 gateway (client_components b) b
          else b)"

text \<open>
  Lines 78-84: the database component, and \<open>for service_id in backend_services\<close>, one
  connection with a fresh id per backend service.
\<close>

fun connect_services ::
  "(nat \<Rightarrow> string) \<Rightarrow> string \<Rightarrow> string list \<Rightarrow> builder \<Rightarrow> builder" where
  "connect_services uuid4 db_id [] b = b"
| "connect_services uuid4 db_id (service_id # rest) b =
     connect_services uuid4 db_id rest
       (b\<lparr>b_connections :=
            b_connections b @
            [mk_connection (''conn_'' @ uuid4 (uuid_calls b)) service_id db_id
               ''TCP/IP (specific to DB)'' ''Service connection to Database.''],
          uuid_calls := uuid_calls b + 1\<rparr>)"

definition database_component :: "string \<Rightarrow> architecture_component" where
  "database_component db_id =
     mk_component db_id ''Primary Database'' ''Database''
       ''e.g., PostgreSQL/MongoDB/DynamoDB'' ''Persistent storage for application data.''"

definition database_tier :: "(nat \<Rightarrow> string) \<Rightarrow> string \<Rightarrow> builder \<Rightarrow> builder" where
  "database_tier uuid4 prompt_lower b =
     (if contains ''database'' prompt_lower \<or> contains ''storage'' prompt_lower
      then
        (let db_id = ''comp_'' @ uuid4 (uuid_calls b);
             b1 = b\<lparr>b_components := b_components b @ [database_component db_id],
                    uuid_calls := uuid_calls b + 1\<rparr>
         in if backend_services b1 \<noteq> []
            then connect_services uuid4 db_id (backend_services b1) b1
            else b1)
      else b)"

text \<open>
  Lines 86-94: the fallback, taken when the list of components is empty at this point,
  with its own test of the database keywords.
\<close>

definition fallback :: "(nat \<Rightarrow> string) \<Rightarrow> string \<Rightarrow> builder \<Rightarrow> builder" where
  "fallback uuid4 prompt_lower b =
     (if b_components b = []
      then
        (let k = uuid_calls b;
             default_comp_id = ''comp_'' @ uuid4 k;
             b1 = b\<lparr>b_components :=
                      b_components b @
                      [mk_component default_comp_id ''Default Application Core'' ''Monolith''
                         ''Generic''
                         ''Basic application component generated due to lack of specific keywords.''],
                    uuid_calls := k + 1\<rparr>
         in if contains ''database'' prompt_lower \<or> contains ''storage'' prompt_lower
            then
              (let db_id = ''comp_'' @ uuid4 (k + 1)
               in b1\<lparr>b_components := b_components b1 @ [database_component db_id],
                     b_connections :=
                       b_connections b1 @
                       [mk_connection (''conn_'' @ uuid4 (k + 2)) default_comp_id db_id
                          ''TCP/IP (specific to DB)'' ''Default core connection to Database.''],
                     uuid_calls := k + 3\<rparr>)
            else b1)
      else b)"

text \<open>
  Lines 36-94: the blocks in the order of the source, from empty lists. The call of
  \<open>uuid4\<close> that names the diagram (line 35) came first, so the blocks start at call 1.
\<close>

definition rule_blocks :: "(nat \<Rightarrow> string) \<Rightarrow> string \<Rightarrow> builder" where
  "rule_blocks uuid4 prompt_lower =
     fallback uuid4 prompt_lower
       (database_tier uuid4 prompt_lower
         (client_wiring uuid4
           (backend_tier uuid4 prompt_lower
             (client_tier uuid4 prompt_lower
                \<lparr>b_components = [], b_connections = [], client_components = [],
                 backend_services = [], api_gateway_id = None, uuid_calls = 1\<rparr>))))"

text \<open>The endpoint assembles the diagram from the two lists (lines 96-103).\<close>

definition generate_architecture_endpoint ::
  "(nat \<Rightarrow> string) \<Rightarrow> text_prompt_request \<Rightarrow> architecture_diagram" where
  "generate_architecture_endpoint uuid4 request =
     (let b = rule_blocks uuid4 (lower (prompt request))
      in \<lparr>diagram_id = ''arch_'' @ uuid4 0,
          name = ''Generated Architecture for: '' @ take 50 (prompt request) @ ''...'',
          description =
            Some ''This architecture was automatically generated based on the provided prompt.'',
          components = b_components b,
          connections = b_connections b,
          metadata =
            Some [(''prompt'', PyStr (prompt request)), (''generator_version'', PyStr ''0.1.0'')]\<rparr>)"


section \<open>The diagram store (app/main.py, save and get)\<close>

subsection \<open>Serialisation of the models\<close>







subsection \<open>Validation of the models\<close>

text \<open>
  \<open>model_validate_json\<close> reads a JSON document into a model. A value of type \<open>Any\<close>
  is read as the Python value the document denotes: \<open>null\<close> as \<open>None\<close>, a number
  with a fraction or an exponent as a float.
\<close>

primrec from_json :: "json \<Rightarrow> py_value" where
  "from_json JNull = PyNone"
| "from_json (JBool b) = PyBool b"
| "from_json (JInt n) = PyInt n"
| "from_json (JFloat m e) = PyFloat (Finite m e)"
| "from_json (JStr s) = PyStr s"
| "from_json (JArr js) = PyList (map from_json js)"
| "from_json (JObj kvs) = PyDict (map (map_prod id from_json) kvs)"

text \<open>
  The fields are checked against the shape their declarations in models.py give: a
  required \<open>str\<close> field must be present and a string; an \<open>Optional\<close> field may be
  absent or \<open>null\<close>; a list field may be absent (the default \<open>[]\<close>) and every element
  must validate; keys that name no field are ignored. \<open>None\<close> is a validation error.
\<close>

type_synonym json_object = "(string \<times> json) list"

definition required_str :: "json_object \<Rightarrow> string \<Rightarrow> string option" where
  "required_str obj k = (case map_of obj k of Some (JStr s) \<Rightarrow> Some s | _ \<Rightarrow> None)"

definition optional_str :: "json_object \<Rightarrow> string \<Rightarrow> string option option" where
  "optional_str obj k =
     (case map_of obj k of
        None \<Rightarrow> Some None
      | Some JNull \<Rightarrow> Some None
      | Some (JStr s) \<Rightarrow> Some (Some s)
      | _ \<Rightarrow> None)"

definition optional_dict :: "json_object \<Rightarrow> string \<Rightarrow> py_dict option option" where
  "optional_dict obj k =
     (case map_of obj k of
        None \<Rightarrow> Some None
      | Some JNull \<Rightarrow> Some None
      | Some (JObj kvs) \<Rightarrow> Some (Some (map (map_prod id from_json) kvs))
      | _ \<Rightarrow> None)"

fun validate_list :: "(json \<Rightarrow> 'a option) \<Rightarrow> json list \<Rightarrow> 'a list option" where
  "validate_list f [] = Some []"
| "validate_list f (j # js) =
     (case f j of
        None \<Rightarrow> None
      | Some x \<Rightarrow> (case validate_list f js of None \<Rightarrow> None | Some xs \<Rightarrow> Some (x # xs)))"

definition list_field ::
  "(json \<Rightarrow> 'a option) \<Rightarrow> json_object \<Rightarrow> string \<Rightarrow> 'a list option" where
  "list_field f obj k =
     (case map_of obj k of
        None \<Rightarrow> Some []
      | Some (JArr js) \<Rightarrow> validate_list f js
      | _ \<Rightarrow> None)"

definition validate_component :: "json \<Rightarrow> architecture_component option" where
  "validate_component j =
     (case j of
        JObj obj \<Rightarrow>
          (case (required_str obj ''id'', required_str obj ''name'', required_str obj ''type'',
                 optional_str obj ''technology'', optional_str obj ''description'',
                 optional_dict obj ''properties'') of
             (Some i, Some n, Some t, Some tech, Some d, Some p) \<Rightarrow>
               Some \<lparr>component_id = i, component_name = n, component_type = t, technology = tech,
                     component_description = d, component_properties = p\<rparr>
           | _ \<Rightarrow> None)
      | _ \<Rightarrow> None)"

definition validate_connection :: "json \<Rightarrow> architecture_connection option" where
  "validate_connection j =
     (case j of
        JObj obj \<Rightarrow>
          (case (required_str obj ''id'', required_str obj ''source_component_id'',
                 required_str obj ''target_component_id'', optional_str obj ''protocol'',
                 optional_str obj ''description'', optional_dict obj ''properties'') of
             (Some i, Some src, Some tgt, Some proto, Some d, Some p) \<Rightarrow>
               Some \<lparr>connection_id = i, source_component_id = src, target_component_id = tgt,
                     protocol = proto, connection_description = d, connection_properties = p\<rparr>
           | _ \<Rightarrow> None)
      | _ \<Rightarrow> None)"

definition model_validate_json :: "json \<Rightarrow> architecture_diagram option" where
  "model_validate_json j =
     (case j of
        JObj obj \<Rightarrow>
          (case (required_str obj ''diagram_id'', required_str obj ''name'',
                 optional_str obj ''description'',
                 list_field validate_component obj ''components'',
                 list_field validate_connection obj ''connections'',
                 optional_dict obj ''metadata'') of
             (Some i, Some n, Some d, Some comps, Some conns, Some m) \<Rightarrow>
               Some \<lparr>diagram_id = i, name = n, description = d, components = comps,
                     connections = conns, metadata = m\<rparr>
           | _ \<Rightarrow> None)
      | _ \<Rightarrow> None)"

subsection \<open>Files\<close>

text \<open>
  The text of a file is \<open>Blank\<close> (a text that \<open>file_content.strip()\<close> leaves empty),
  \<open>Malformed\<close> (a text that is not JSON) or \<open>JSON_text j\<close>, the text of the JSON
  document \<open>j\<close>; the characters of a document (white space, escapes) are not modelled.

  A path of the file system names no file, a regular file, or something that exists and
  cannot be opened for reading (a directory, a file without permission); whether a path
  can be opened for writing is a predicate of the file system.
\<close>

datatype file_content = Blank | Malformed | JSON_text json

datatype node = Regular file_content | Unreadable

record filesystem =
  nodes :: "string \<Rightarrow> node option"
  can_write :: "string \<Rightarrow> bool"

definition SAVED_ARCHITECTURES_DIR :: string where
  "SAVED_ARCHITECTURES_DIR = ''saved_architectures''"

text \<open>\<open>os.path.join\<close> with two arguments, on POSIX.\<close>

definition path_join :: "string \<Rightarrow> string \<Rightarrow> string" where
  "path_join a b =
     (if startswith b ''/'' then b
      else if a = [] \<or> last a = CHR ''/'' then a @ b
      else a @ ''/'' @ b)"

definition architecture_path :: "string \<Rightarrow> string" where
  "architecture_path architecture_id =
     path_join SAVED_ARCHITECTURES_DIR (architecture_id @ ''.json'')"

subsection \<open>Errors\<close>

text \<open>
  A failed request raises \<open>HTTPException(status_code, detail)\<close>. The detail is a
  message built around the identifier; the model keeps which message it is. The error
  kinds of the specification are told apart by the status code: \<open>NotFound\<close> is 404,
  \<open>CorruptData\<close> and \<open>IOFailure\<close> are 500.
\<close>

datatype detail =
    Not_found string
  | Is_empty string
  | Not_found_race string
  | Not_valid_JSON string
  | Invalid_data_structure string
  | Could_not_read string
  | Unexpected_retrieving string detail
  | Could_not_save
  | Unexpected_saving

datatype http_exception = HTTPException (status_code: nat) (detail: detail)

text \<open>What the body of a \<open>try\<close> block can raise.\<close>

datatype exn =
    FileNotFoundError
  | JSONDecodeError
  | ValidationError
  | IOError
  | Raised http_exception

subsection \<open>save (lines 141-165)\<close>



subsection \<open>get (lines 167-200)\<close>

text \<open>
  The body of the \<open>try\<close> block: open and read the file, refuse a blank text, validate.
  In pydantic 2 (the version that has \<open>model_validate_json\<close>) a text that is not JSON
  raises \<open>ValidationError\<close>, as a value of the wrong shape does.
\<close>

definition read_and_validate :: "string \<Rightarrow> node \<Rightarrow> exn + architecture_diagram" where
  "read_and_validate architecture_id n =
     (case n of
        Unreadable \<Rightarrow> Inl IOError
      | Regular Blank \<Rightarrow> Inl (Raised (HTTPException 500 (Is_empty architecture_id)))
      | Regular Malformed \<Rightarrow> Inl ValidationError
      | Regular (JSON_text j) \<Rightarrow>
          (case model_validate_json j of
             None \<Rightarrow> Inl ValidationError
           | Some d \<Rightarrow> Inr d))"

text \<open>The \<open>except\<close> clauses, in the order of the source; the last one catches the rest.\<close>

fun get_handler :: "string \<Rightarrow> exn \<Rightarrow> http_exception" where
  "get_handler architecture_id FileNotFoundError =
     HTTPException 404 (Not_found_race architecture_id)"
| "get_handler architecture_id JSONDecodeError =
     HTTPException 500 (Not_valid_JSON architecture_id)"
| "get_handler architecture_id ValidationError =
     HTTPException 500 (Invalid_data_structure architecture_id)"
| "get_handler architecture_id IOError =
     HTTPException 500 (Could_not_read architecture_id)"
| "get_handler architecture_id (Raised e) =
     HTTPException 500 (Unexpected_retrieving architecture_id (detail e))"

definition get_architecture_endpoint ::
  "string \<Rightarrow> filesystem \<Rightarrow> (http_exception + architecture_diagram) \<times> filesystem" where
  "get_architecture_endpoint architecture_id fs =
     (case nodes fs (architecture_path architecture_id) of
        None \<Rightarrow> (Inl (HTTPException 404 (Not_found architecture_id)), fs)
      | Some n \<Rightarrow>
          (case read_and_validate architecture_id n of
             Inl e \<Rightarrow> (Inl (get_handler architecture_id e), fs)
           | Inr architecture_model \<Rightarrow> (Inr architecture_model, fs)))"

section \<open>Properties of diagrams and of stored files\<close>

text \<open>Every endpoint of every connection is the id of a component of the diagram.\<close>

definition endpoints_resolve :: "architecture_diagram \<Rightarrow> bool" where
  "endpoints_resolve d =
     list_all (\<lambda>c. source_component_id c \<in> set (map component_id (components d)) \<and>
                   target_component_id c \<in> set (map component_id (components d)))
       (connections d)"

text \<open>No connection leads from a component to itself.\<close>

definition no_self_loops :: "architecture_diagram \<Rightarrow> bool" where
  "no_self_loops d =
     list_all (\<lambda>c. source_component_id c \<noteq> target_component_id c) (connections d)"

text \<open>
  A stored text that get cannot turn into a diagram: blank, not JSON, or JSON of the
  wrong shape.
\<close>

definition unreadable :: "file_content \<Rightarrow> bool" where
  "unreadable c =
     (case c of
        Blank \<Rightarrow> True
      | Malformed \<Rightarrow> True
      | JSON_text j \<Rightarrow> model_validate_json j = None)"







section \<open>Lemmas\<close>

subsection \<open>The substring test\<close>

lemma startswith_prefix: "startswith s sub = prefix sub s"
  by (induction s sub rule: startswith.induct) auto

lemma contains_sublist: "contains sub s = sublist sub s"
  by (induction s) (simp_all add: startswith_prefix sublist_Cons_right)

subsection \<open>The endpoint in terms of its blocks\<close>

lemma gen_components:
  "components (generate_architecture_endpoint uuid4 r) =
     b_components (rule_blocks uuid4 (lower (prompt r)))"
  by (simp add: generate_architecture_endpoint_def Let_def)

lemma gen_connections:
  "connections (generate_architecture_endpoint uuid4 r) =
     b_connections (rule_blocks uuid4 (lower (prompt r)))"
  by (simp add: generate_architecture_endpoint_def Let_def)

lemmas tier_defs =
  rule_blocks_def client_tier_def backend_tier_def client_wiring_def database_tier_def
  fallback_def

lemmas mk_defs = mk_component_def mk_connection_def database_component_def

text \<open>One request calls \<open>uuid4\<close> at most 15 times (calls 0 to 14).\<close>

lemma uuid4_eq:
  "inj_on uuid4 {..<15} \<Longrightarrow> i < 15 \<Longrightarrow> j < 15 \<Longrightarrow> (uuid4 i = uuid4 j) = (i = j)"
  by (auto simp: inj_on_def)

subsection \<open>Validation reads back what serialisation wrote\<close>













subsection \<open>get after save\<close>




section \<open>The synthesis engine\<close>

text \<open>
  C2 (well-formed output). For every prompt the endpoint returns a diagram (the model is
  a total function with no error result) with at least one component in which every
  connection's source and target are ids of components of the diagram. When the values
  that the at most 15 calls of \<open>uuid4\<close> return are pairwise distinct, no connection
  has its source equal to its target, no two components share an id, and no two
  connections share an id.
\<close>

theorem synthesize_well_formed:
  "components (generate_architecture_endpoint uuid4 r) \<noteq> [] \<and>
   endpoints_resolve (generate_architecture_endpoint uuid4 r) \<and>
   (inj_on uuid4 {..<15} \<longrightarrow>
      no_self_loops (generate_architecture_endpoint uuid4 r) \<and>
      distinct (map component_id (components (generate_architecture_endpoint uuid4 r))) \<and>
      distinct (map connection_id (connections (generate_architecture_endpoint uuid4 r))))"
proof -
  let ?p = "lower (prompt r)"
  let ?b = "rule_blocks uuid4 ?p"
  have "b_components ?b \<noteq> [] \<and>
    list_all (\<lambda>c. source_component_id c \<in> set (map component_id (b_components ?b)) \<and>
                   target_component_id c \<in> set (map component_id (b_components ?b)))
       (b_connections ?b) \<and>
    (inj_on uuid4 {..<15} \<longrightarrow>
     list_all (\<lambda>c. source_component_id c \<noteq> target_component_id c) (b_connections ?b) \<and>
     distinct (map component_id (b_components ?b)) \<and>
     distinct (map connection_id (b_connections ?b)))"
    by (cases "contains ''android'' ?p"; cases "contains ''ios'' ?p";
        cases "contains ''web'' ?p \<or> contains ''browser'' ?p";
        cases "contains ''api'' ?p \<or> contains ''backend'' ?p";
        cases "contains ''database'' ?p \<or> contains ''storage'' ?p")
       (simp_all add: tier_defs Let_def mk_defs uuid4_eq)
  then show ?thesis
    by (simp add: endpoints_resolve_def no_self_loops_def gen_components gen_connections)
qed

theorem synthesize_well_formed_witness:
  "inj_on (\<lambda>n. replicate n (CHR ''u'')) {..<15} \<and>
   components (generate_architecture_endpoint (\<lambda>n. replicate n (CHR ''u''))
      \<lparr>prompt = ''android ios web api database''\<rparr>) \<noteq> [] \<and>
   endpoints_resolve (generate_architecture_endpoint (\<lambda>n. replicate n (CHR ''u''))
      \<lparr>prompt = ''android ios web api database''\<rparr>) \<and>
   no_self_loops (generate_architecture_endpoint (\<lambda>n. replicate n (CHR ''u''))
      \<lparr>prompt = ''android ios web api database''\<rparr>) \<and>
   distinct (map component_id (components (generate_architecture_endpoint
      (\<lambda>n. replicate n (CHR ''u'')) \<lparr>prompt = ''android ios web api database''\<rparr>))) \<and>
   distinct (map connection_id (connections (generate_architecture_endpoint
      (\<lambda>n. replicate n (CHR ''u'')) \<lparr>prompt = ''android ios web api database''\<rparr>)))"
  using synthesize_well_formed
    [of "\<lambda>n. replicate n (CHR ''u'')" "\<lparr>prompt = ''android ios web api database''\<rparr>"]
  by (simp add: inj_on_def)

text \<open>
  C3 (concrete scenario). For the prompt "Create a simple android app with a backend api
  and a database." the diagram has exactly the five components Android Client, API
  Gateway, User Service, Product Service and Primary Database (in this order), and
  exactly five connections: gateway to user service, gateway to product service, Android
  client to gateway, user service to database, product service to database.
\<close>

theorem synthesize_android_api_database:
  "\<exists>a g u p db.
     map (\<lambda>c. (component_id c, component_name c))
       (components (generate_architecture_endpoint uuid4
          \<lparr>prompt = ''Create a simple android app with a backend api and a database.''\<rparr>)) =
       [(a, ''Android Client''), (g, ''API Gateway''), (u, ''User Service''),
        (p, ''Product Service''), (db, ''Primary Database'')] \<and>
     map (\<lambda>c. (source_component_id c, target_component_id c))
       (connections (generate_architecture_endpoint uuid4
          \<lparr>prompt = ''Create a simple android app with a backend api and a database.''\<rparr>)) =
       [(g, u), (g, p), (a, g), (u, db), (p, db)]"
proof -
  have l: "lower ''Create a simple android app with a backend api and a database.'' =
             ''create a simple android app with a backend api and a database.''"
    by code_simp
  show ?thesis
    by (simp add: gen_components gen_connections l tier_defs Let_def mk_defs)
qed

text \<open>
  C4 (backend tier, once). For every prompt whose lowercase form contains "api" or
  "backend", the diagram has exactly one component named API Gateway, exactly two
  components of type Microservice, the User Service and the Product Service, and exactly
  two connections with protocol HTTPS/REST, from the gateway to the user service and from
  the gateway to the product service, however often the keywords occur. When the values
  of \<open>uuid4\<close> are pairwise distinct, these two are all the connections that leave the
  gateway.
\<close>

theorem backend_tier_once:
  assumes "contains ''api'' (lower (prompt r)) \<or> contains ''backend'' (lower (prompt r))"
  shows "\<exists>g u p k1 k2.
     filter (\<lambda>c. component_name c = ''API Gateway'')
       (components (generate_architecture_endpoint uuid4 r)) = [g] \<and>
     filter (\<lambda>c. component_type c = ''Microservice'')
       (components (generate_architecture_endpoint uuid4 r)) = [u, p] \<and>
     component_name u = ''User Service'' \<and> component_name p = ''Product Service'' \<and>
     filter (\<lambda>c. protocol c = Some ''HTTPS/REST'')
       (connections (generate_architecture_endpoint uuid4 r)) = [k1, k2] \<and>
     source_component_id k1 = component_id g \<and> target_component_id k1 = component_id u \<and>
     source_component_id k2 = component_id g \<and> target_component_id k2 = component_id p \<and>
     (inj_on uuid4 {..<15} \<longrightarrow>
        filter (\<lambda>c. source_component_id c = component_id g)
          (connections (generate_architecture_endpoint uuid4 r)) = [k1, k2])"
  unfolding gen_components gen_connections
  using assms
  by (cases "contains ''android'' (lower (prompt r))"; cases "contains ''ios'' (lower (prompt r))";
      cases "contains ''web'' (lower (prompt r)) \<or> contains ''browser'' (lower (prompt r))";
      cases "contains ''database'' (lower (prompt r)) \<or> contains ''storage'' (lower (prompt r))")
     (simp_all add: tier_defs Let_def mk_defs uuid4_eq)

theorem backend_tier_once_witness:
  "(contains ''api'' (lower (prompt \<lparr>prompt = ''An API behind a backend API''\<rparr>)) \<or>
    contains ''backend'' (lower (prompt \<lparr>prompt = ''An API behind a backend API''\<rparr>))) \<and>
   inj_on (\<lambda>n. replicate n (CHR ''u'')) {..<15} \<and>
   (\<exists>g u p k1 k2.
     filter (\<lambda>c. component_name c = ''API Gateway'')
       (components (generate_architecture_endpoint (\<lambda>n. replicate n (CHR ''u''))
          \<lparr>prompt = ''An API behind a backend API''\<rparr>)) = [g] \<and>
     filter (\<lambda>c. component_type c = ''Microservice'')
       (components (generate_architecture_endpoint (\<lambda>n. replicate n (CHR ''u''))
          \<lparr>prompt = ''An API behind a backend API''\<rparr>)) = [u, p] \<and>
     component_name u = ''User Service'' \<and> component_name p = ''Product Service'' \<and>
     filter (\<lambda>c. protocol c = Some ''HTTPS/REST'')
       (connections (generate_architecture_endpoint (\<lambda>n. replicate n (CHR ''u''))
          \<lparr>prompt = ''An API behind a backend API''\<rparr>)) = [k1, k2] \<and>
     source_component_id k1 = component_id g \<and> target_component_id k1 = component_id u \<and>
     source_component_id k2 = component_id g \<and> target_component_id k2 = component_id p \<and>
     filter (\<lambda>c. source_component_id c = component_id g)
       (connections (generate_architecture_endpoint (\<lambda>n. replicate n (CHR ''u''))
          \<lparr>prompt = ''An API behind a backend API''\<rparr>)) = [k1, k2])"
proof -
  have l: "lower ''An API behind a backend API'' = ''an api behind a backend api''"
    by code_simp
  have h: "contains ''api'' (lower (prompt \<lparr>prompt = ''An API behind a backend API''\<rparr>)) \<or>
    contains ''backend'' (lower (prompt \<lparr>prompt = ''An API behind a backend API''\<rparr>))"
    by (simp add: l)
  have i: "inj_on (\<lambda>n. replicate n (CHR ''u'')) {..<15}"
    by (simp add: inj_on_def)
  from backend_tier_once [OF h, of "\<lambda>n. replicate n (CHR ''u'')"] h i show ?thesis
    by blast
qed

text \<open>
  C5 (database without clients or backend), evaluated at the prompt "database": the
  database block appends the Primary Database before the fallback tests whether the list
  of components is empty, so the diagram holds the database component alone, without a
  Default Application Core and without a connection.
\<close>

theorem database_prompt_skips_fallback:
  "map component_name
     (components (generate_architecture_endpoint uuid4 \<lparr>prompt = ''database''\<rparr>)) =
     [''Primary Database''] \<and>
   connections (generate_architecture_endpoint uuid4 \<lparr>prompt = ''database''\<rparr>) = []"
proof -
  have l: "lower ''database'' = ''database''" by code_simp
  show ?thesis
    by (simp add: gen_components gen_connections l tier_defs Let_def mk_defs)
qed

text \<open>
  C6 (no keyword). For every prompt whose lowercase form contains none of "android",
  "ios", "web", "browser", "api", "backend", "database" and "storage" (the empty prompt is
  one), the diagram has exactly one component, named Default Application Core, and no
  connection.
\<close>

theorem no_keyword_default_component:
  assumes "\<not> contains ''android'' (lower (prompt r))" "\<not> contains ''ios'' (lower (prompt r))"
    "\<not> contains ''web'' (lower (prompt r))" "\<not> contains ''browser'' (lower (prompt r))"
    "\<not> contains ''api'' (lower (prompt r))" "\<not> contains ''backend'' (lower (prompt r))"
    "\<not> contains ''database'' (lower (prompt r))" "\<not> contains ''storage'' (lower (prompt r))"
  shows "map component_name (components (generate_architecture_endpoint uuid4 r)) =
           [''Default Application Core''] \<and>
         connections (generate_architecture_endpoint uuid4 r) = []"
  using assms by (simp add: gen_components gen_connections tier_defs Let_def mk_defs)

theorem no_keyword_default_component_witness:
  "\<not> contains ''android'' (lower (prompt \<lparr>prompt = ''''\<rparr>)) \<and>
   \<not> contains ''ios'' (lower (prompt \<lparr>prompt = ''''\<rparr>)) \<and>
   \<not> contains ''web'' (lower (prompt \<lparr>prompt = ''''\<rparr>)) \<and>
   \<not> contains ''browser'' (lower (prompt \<lparr>prompt = ''''\<rparr>)) \<and>
   \<not> contains ''api'' (lower (prompt \<lparr>prompt = ''''\<rparr>)) \<and>
   \<not> contains ''backend'' (lower (prompt \<lparr>prompt = ''''\<rparr>)) \<and>
   \<not> contains ''database'' (lower (prompt \<lparr>prompt = ''''\<rparr>)) \<and>
   \<not> contains ''storage'' (lower (prompt \<lparr>prompt = ''''\<rparr>)) \<and>
   map component_name
     (components (generate_architecture_endpoint (\<lambda>n. replicate n (CHR ''u''))
        \<lparr>prompt = ''''\<rparr>)) = [''Default Application Core''] \<and>
   connections (generate_architecture_endpoint (\<lambda>n. replicate n (CHR ''u''))
     \<lparr>prompt = ''''\<rparr>) = []"
  using no_keyword_default_component [of "\<lparr>prompt = ''''\<rparr>" "\<lambda>n. replicate n (CHR ''u'')"]
  by (simp add: lower_def)

text \<open>
  C7 (three clients). For every prompt whose lowercase form contains "android", "ios" and
  "web", the diagram has exactly three client components (type MobileClient or WebClient):
  the Android Client, the iOS Client and the Web Client. If the lowercase form also
  contains "api", exactly three connections have protocol HTTPS, one from each client to
  the gateway; when the values of \<open>uuid4\<close> are pairwise distinct, these three are all the
  connections that arrive at the gateway.
\<close>

theorem three_clients:
  assumes "contains ''android'' (lower (prompt r))" "contains ''ios'' (lower (prompt r))"
    "contains ''web'' (lower (prompt r))"
  shows "\<exists>a i w.
     filter (\<lambda>c. component_type c = ''MobileClient'' \<or> component_type c = ''WebClient'')
       (components (generate_architecture_endpoint uuid4 r)) = [a, i, w] \<and>
     component_name a = ''Android Client'' \<and> component_name i = ''iOS Client'' \<and>
     component_name w = ''Web Client'' \<and>
     (contains ''api'' (lower (prompt r)) \<longrightarrow>
       (\<exists>g k1 k2 k3.
          filter (\<lambda>c. component_name c = ''API Gateway'')
            (components (generate_architecture_endpoint uuid4 r)) = [g] \<and>
          filter (\<lambda>c. protocol c = Some ''HTTPS'')
            (connections (generate_architecture_endpoint uuid4 r)) = [k1, k2, k3] \<and>
          source_component_id k1 = component_id a \<and> target_component_id k1 = component_id g \<and>
          source_component_id k2 = component_id i \<and> target_component_id k2 = component_id g \<and>
          source_component_id k3 = component_id w \<and> target_component_id k3 = component_id g \<and>
          (inj_on uuid4 {..<15} \<longrightarrow>
             filter (\<lambda>c. target_component_id c = component_id g)
               (connections (generate_architecture_endpoint uuid4 r)) = [k1, k2, k3])))"
  unfolding gen_components gen_connections
  using assms
  by (cases "contains ''api'' (lower (prompt r))"; cases "contains ''backend'' (lower (prompt r))";
      cases "contains ''database'' (lower (prompt r)) \<or> contains ''storage'' (lower (prompt r))")
     (simp_all add: tier_defs Let_def mk_defs uuid4_eq)

theorem three_clients_witness:
  "contains ''android'' (lower (prompt \<lparr>prompt = ''Android, iOS and Web over one API''\<rparr>)) \<and>
   contains ''ios'' (lower (prompt \<lparr>prompt = ''Android, iOS and Web over one API''\<rparr>)) \<and>
   contains ''web'' (lower (prompt \<lparr>prompt = ''Android, iOS and Web over one API''\<rparr>)) \<and>
   contains ''api'' (lower (prompt \<lparr>prompt = ''Android, iOS and Web over one API''\<rparr>)) \<and>
   inj_on (\<lambda>n. replicate n (CHR ''u'')) {..<15} \<and>
   (\<exists>a i w g k1 k2 k3.
     filter (\<lambda>c. component_type c = ''MobileClient'' \<or> component_type c = ''WebClient'')
       (components (generate_architecture_endpoint (\<lambda>n. replicate n (CHR ''u''))
          \<lparr>prompt = ''Android, iOS and Web over one API''\<rparr>)) = [a, i, w] \<and>
     component_name a = ''Android Client'' \<and> component_name i = ''iOS Client'' \<and>
     component_name w = ''Web Client'' \<and>
     filter (\<lambda>c. component_name c = ''API Gateway'')
       (components (generate_architecture_endpoint (\<lambda>n. replicate n (CHR ''u''))
          \<lparr>prompt = ''Android, iOS and Web over one API''\<rparr>)) = [g] \<and>
     filter (\<lambda>c. protocol c = Some ''HTTPS'')
       (connections (generate_architecture_endpoint (\<lambda>n. replicate n (CHR ''u''))
          \<lparr>prompt = ''Android, iOS and Web over one API''\<rparr>)) = [k1, k2, k3] \<and>
     source_component_id k1 = component_id a \<and> target_component_id k1 = component_id g \<and>
     source_component_id k2 = component_id i \<and> target_component_id k2 = component_id g \<and>
     source_component_id k3 = component_id w \<and> target_component_id k3 = component_id g \<and>
     filter (\<lambda>c. target_component_id c = component_id g)
       (connections (generate_architecture_endpoint (\<lambda>n. replicate n (CHR ''u''))
          \<lparr>prompt = ''Android, iOS and Web over one API''\<rparr>)) = [k1, k2, k3])"
proof -
  have l: "lower ''Android, iOS and Web over one API'' = ''android, ios and web over one api''"
    by code_simp
  have h1: "contains ''android'' (lower (prompt \<lparr>prompt = ''Android, iOS and Web over one API''\<rparr>))"
    and h2: "contains ''ios'' (lower (prompt \<lparr>prompt = ''Android, iOS and Web over one API''\<rparr>))"
    and h3: "contains ''web'' (lower (prompt \<lparr>prompt = ''Android, iOS and Web over one API''\<rparr>))"
    and h4: "contains ''api'' (lower (prompt \<lparr>prompt = ''Android, iOS and Web over one API''\<rparr>))"
    by (simp_all add: l)
  have i: "inj_on (\<lambda>n. replicate n (CHR ''u'')) {..<15}"
    by (simp add: inj_on_def)
  from three_clients [OF h1 h2 h3, of "\<lambda>n. replicate n (CHR ''u'')"] h1 h2 h3 h4 i
  show ?thesis by blast
qed


section \<open>The store\<close>




text \<open>
  C8 (not found). When no file exists under the path of an identifier, get fails with
  status 404 and the not-found message for that identifier (the error kind NotFound),
  not with status 500, and it leaves the file system as it was.
\<close>

theorem get_missing_not_found:
  assumes "nodes fs (architecture_path architecture_id) = None"
  shows "get_architecture_endpoint architecture_id fs =
           (Inl (HTTPException 404 (Not_found architecture_id)), fs)"
  using assms by (simp add: get_architecture_endpoint_def)

theorem get_missing_not_found_witness:
  "nodes \<lparr>nodes = Map.empty, can_write = (\<lambda>p. True)\<rparr>
     (architecture_path ''arch_id_does_not_exist_12345'') = None \<and>
   get_architecture_endpoint ''arch_id_does_not_exist_12345''
     \<lparr>nodes = Map.empty, can_write = (\<lambda>p. True)\<rparr> =
     (Inl (HTTPException 404 (Not_found ''arch_id_does_not_exist_12345'')),
      \<lparr>nodes = Map.empty, can_write = (\<lambda>p. True)\<rparr>)"
  using get_missing_not_found
    [of "\<lparr>nodes = Map.empty, can_write = (\<lambda>p. True)\<rparr>" "''arch_id_does_not_exist_12345''"]
  by simp

text \<open>
  C9 (corrupt data). When the file under the path of an identifier exists and its text is
  blank, is not JSON, or is JSON that does not have the shape of a diagram, get fails with
  status 500 (the error kind CorruptData), which differs from the status 404 of a missing
  file.
\<close>

theorem get_corrupt_data:
  assumes "nodes fs (architecture_path architecture_id) = Some (Regular c)" "unreadable c"
  shows "\<exists>e. get_architecture_endpoint architecture_id fs = (Inl e, fs) \<and>
             status_code e = 500 \<and> status_code e \<noteq> 404"
  using assms
  by (cases c) (auto simp: get_architecture_endpoint_def read_and_validate_def unreadable_def)

theorem get_corrupt_data_witness:
  "(nodes \<lparr>nodes = [architecture_path ''a'' \<mapsto> Regular Blank], can_write = (\<lambda>p. False)\<rparr>
      (architecture_path ''a'') = Some (Regular Blank) \<and>
    unreadable Blank \<and>
    (\<exists>e. get_architecture_endpoint ''a''
            \<lparr>nodes = [architecture_path ''a'' \<mapsto> Regular Blank], can_write = (\<lambda>p. False)\<rparr> =
            (Inl e,
             \<lparr>nodes = [architecture_path ''a'' \<mapsto> Regular Blank], can_write = (\<lambda>p. False)\<rparr>) \<and>
          status_code e = 500 \<and> status_code e \<noteq> 404)) \<and>
   (nodes \<lparr>nodes = [architecture_path ''b'' \<mapsto> Regular Malformed], can_write = (\<lambda>p. False)\<rparr>
      (architecture_path ''b'') = Some (Regular Malformed) \<and>
    unreadable Malformed \<and>
    (\<exists>e. get_architecture_endpoint ''b''
            \<lparr>nodes = [architecture_path ''b'' \<mapsto> Regular Malformed],
             can_write = (\<lambda>p. False)\<rparr> =
            (Inl e,
             \<lparr>nodes = [architecture_path ''b'' \<mapsto> Regular Malformed],
              can_write = (\<lambda>p. False)\<rparr>) \<and>
          status_code e = 500 \<and> status_code e \<noteq> 404)) \<and>
   (nodes \<lparr>nodes = [architecture_path ''c'' \<mapsto>
                      Regular (JSON_text (JObj [(''name'', JStr ''no diagram_id'')]))],
           can_write = (\<lambda>p. False)\<rparr>
      (architecture_path ''c'') =
      Some (Regular (JSON_text (JObj [(''name'', JStr ''no diagram_id'')]))) \<and>
    unreadable (JSON_text (JObj [(''name'', JStr ''no diagram_id'')])) \<and>
    (\<exists>e. get_architecture_endpoint ''c''
            \<lparr>nodes = [architecture_path ''c'' \<mapsto>
                       Regular (JSON_text (JObj [(''name'', JStr ''no diagram_id'')]))],
             can_write = (\<lambda>p. False)\<rparr> =
            (Inl e,
             \<lparr>nodes = [architecture_path ''c'' \<mapsto>
                        Regular (JSON_text (JObj [(''name'', JStr ''no diagram_id'')]))],
              can_write = (\<lambda>p. False)\<rparr>) \<and>
          status_code e = 500 \<and> status_code e \<noteq> 404))"
proof -
  let ?a = "\<lparr>nodes = [architecture_path ''a'' \<mapsto> Regular Blank], can_write = (\<lambda>p. False)\<rparr>"
  let ?b = "\<lparr>nodes = [architecture_path ''b'' \<mapsto> Regular Malformed], can_write = (\<lambda>p. False)\<rparr>"
  let ?j = "JSON_text (JObj [(''name'', JStr ''no diagram_id'')])"
  let ?c = "\<lparr>nodes = [architecture_path ''c'' \<mapsto> Regular ?j], can_write = (\<lambda>p. False)\<rparr>"
  have a1: "nodes ?a (architecture_path ''a'') = Some (Regular Blank)" by simp
  have a2: "unreadable Blank" by (simp add: unreadable_def)
  have b1: "nodes ?b (architecture_path ''b'') = Some (Regular Malformed)" by simp
  have b2: "unreadable Malformed" by (simp add: unreadable_def)
  have c1: "nodes ?c (architecture_path ''c'') = Some (Regular ?j)" by simp
  have c2: "unreadable ?j" by (simp add: unreadable_def model_validate_json_def required_str_def)
  show ?thesis
    by (intro conjI a1 a2 b1 b2 c1 c2 get_corrupt_data [OF a1 a2] get_corrupt_data [OF b1 b2]
        get_corrupt_data [OF c1 c2])
qed



end
